theory Spec2Isabelle
  imports Main "HOL-Library.AList"
begin

section \<open>Values of the backend (app/backend/app.py)\<close>

text \<open>
  A parsed JSON value, as \<^verbatim>\<open>request.json\<close> hands it to the handlers. An object
  holds the items of the parsed dict; numbers are restricted to integers (no handler
  computes with them).
\<close>

datatype json =
    JNull
  | JBool bool
  | JNum int
  | JStr string
  | JArr "json list"
  | JObj "(string \<times> json) list"

text \<open>
  Instances of Python's \<^verbatim>\<open>Exception\<close>, the class the handlers catch.
  \<^verbatim>\<open>ServiceError\<close> stands for whatever an SDK call or a strategy raises, with its
  message.
\<close>

datatype exn =
    KeyError string
  | TypeError string
  | AttributeError string
  | ServiceError string

definition quoted :: "string \<Rightarrow> string" where
  "quoted s = [CHR 0x27] @ s @ [CHR 0x27]"

text \<open>\<^verbatim>\<open>str(e)\<close>: a KeyError prints the repr of its key, the others their message.\<close>

fun str_exn :: "exn \<Rightarrow> string" where
  "str_exn (KeyError k) = quoted k"
| "str_exn (TypeError m) = m"
| "str_exn (AttributeError m) = m"
| "str_exn (ServiceError m) = m"

text \<open>Python truthiness of a parsed JSON value (\<^verbatim>\<open>not v\<close>, \<^verbatim>\<open>v or d\<close>).\<close>

fun truthy :: "json \<Rightarrow> bool" where
  "truthy JNull = False"
| "truthy (JBool b) = b"
| "truthy (JNum n) = (n \<noteq> 0)"
| "truthy (JStr s) = (s \<noteq> [])"
| "truthy (JArr xs) = (xs \<noteq> [])"
| "truthy (JObj kvs) = (kvs \<noteq> [])"

text \<open>\<^verbatim>\<open>v[key]\<close> with a string key: only a dict can be subscripted by a string.\<close>

fun subscript :: "json \<Rightarrow> string \<Rightarrow> exn + json" where
  "subscript (JObj kvs) k =
     (case map_of kvs k of None \<Rightarrow> Inl (KeyError k) | Some v \<Rightarrow> Inr v)"
| "subscript (JArr xs) k = Inl (TypeError ''list indices must be integers or slices, not str'')"
| "subscript (JStr s) k = Inl (TypeError ''string indices must be integers'')"
| "subscript v k = Inl (TypeError ''object is not subscriptable'')"

text \<open>\<^verbatim>\<open>v.get(key)\<close>: \<^verbatim>\<open>None\<close> for a missing key; only a dict has \<^verbatim>\<open>get\<close>.\<close>

fun json_get :: "json \<Rightarrow> string \<Rightarrow> exn + json" where
  "json_get (JObj kvs) k = (case map_of kvs k of None \<Rightarrow> Inr JNull | Some v \<Rightarrow> Inr v)"
| "json_get v k = Inl (AttributeError (''object has no attribute '' @ quoted ''get''))"

text \<open>
  \<^verbatim>\<open>d.get(key)\<close> on a registry whose keys are strings: a list or a dict is unhashable,
  any other non-string key is simply absent.
\<close>

fun dict_get :: "(string \<rightharpoonup> 'v) \<Rightarrow> json \<Rightarrow> exn + 'v option" where
  "dict_get d (JStr s) = Inr (d s)"
| "dict_get d (JArr xs) = Inl (TypeError (''unhashable type: '' @ quoted ''list''))"
| "dict_get d (JObj kvs) = Inl (TypeError (''unhashable type: '' @ quoted ''dict''))"
| "dict_get d v = Inr None"

text \<open>
  What a strategy's \<^verbatim>\<open>run\<close> returns: a value \<^verbatim>\<open>jsonify\<close> can serialise, or an
  object of some other type (named), on which \<^verbatim>\<open>jsonify\<close> raises.
\<close>

datatype pyval = Serializable json | Unserializable string

fun jsonify :: "pyval \<Rightarrow> exn + json" where
  "jsonify (Serializable j) = Inr j"
| "jsonify (Unserializable t) =
     Inl (TypeError (''Object of type '' @ t @ '' is not JSON serializable''))"

datatype body = JsonBody json | TextBody string

record response =
  body :: body
  status :: nat

record request =
  request_json :: "exn + json"

section \<open>Strings: rfind, slicing, strip, startswith\<close>

text \<open>
  A blob name is a Python \<^verbatim>\<open>str\<close>: a sequence of Unicode code points, of any
  plane. \<open>ustr\<close> reads an ASCII literal as such a sequence.
\<close>

type_synonym ustring = "nat list"

definition ustr :: "string \<Rightarrow> ustring" where
  "ustr s = map of_char s"

text \<open>\<^verbatim>\<open>s.rfind(c)\<close> for a one-character needle: the highest index, or -1.\<close>

fun rfind :: "'a list \<Rightarrow> 'a \<Rightarrow> int" where
  "rfind [] c = - 1"
| "rfind (x # xs) c =
     (let r = rfind xs c in if 0 \<le> r then r + 1 else if x = c then 0 else - 1)"

text \<open>\<^verbatim>\<open>s[:i]\<close>: a negative bound counts from the end and is clamped at 0.\<close>

definition slice_to :: "'a list \<Rightarrow> int \<Rightarrow> 'a list" where
  "slice_to s i = (if i < 0 then take (nat (int (length s) + i)) s else take (nat i) s)"

text \<open>
  The code points Python counts as whitespace (\<^verbatim>\<open>str.isspace\<close>, and what
  \<^verbatim>\<open>str.strip()\<close> removes): U+0009 to U+000D, U+001C to U+0020, U+0085, U+00A0,
  U+1680, U+2000 to U+200A, U+2028, U+2029, U+202F, U+205F and U+3000.
\<close>

definition isspace :: "nat \<Rightarrow> bool" where
  "isspace n =
     ((9 \<le> n \<and> n \<le> 13) \<or> (28 \<le> n \<and> n \<le> 32) \<or> n = 133 \<or> n = 160 \<or> n = 5760 \<or>
      (8192 \<le> n \<and> n \<le> 8202) \<or> n = 8232 \<or> n = 8233 \<or> n = 8239 \<or> n = 8287 \<or>
      n = 12288)"

definition strip :: "ustring \<Rightarrow> ustring" where
  "strip s = rev (dropWhile isspace (rev (dropWhile isspace s)))"

text \<open>
  \<^verbatim>\<open>s.startswith(p)\<close>: the argument must be a string; a string of the request body
  is read as code points.
\<close>

fun startswith :: "ustring \<Rightarrow> json \<Rightarrow> exn + bool" where
  "startswith s (JStr p) = Inr (take (length (ustr p)) s = ustr p)"
| "startswith s v = Inl (TypeError ''startswith first arg must be str or a tuple of str'')"

section \<open>The services the module is wired to\<close>

record access_token =
  token :: string
  expires_on :: int

text \<open>The module's globals \<^verbatim>\<open>openai_token\<close> and \<^verbatim>\<open>openai.api_key\<close>.\<close>

record globals =
  openai_token :: access_token
  openai_api_key :: string

text \<open>
  The properties of a listed blob that the handlers read. \<open>last_modified\<close> is a point
  in time; the handlers only compare two of them.
\<close>

record blob =
  name :: ustring
  last_modified :: int
  etag :: string

text \<open>The result of \<^verbatim>\<open>search_client.search\<close>: the total count and the page of hits.\<close>

record search_results =
  get_count :: nat
  results :: "json list"

text \<open>
  The outside world has a state \<open>'w\<close> (clock, blob storage, search index). The SDK
  objects and the strategy objects of \<^verbatim>\<open>approaches/\<close> are parameters: each is the
  function the handlers call, raising as \<open>Inl\<close>.
  \<^item> \<open>AZURE_STORAGE_CONTAINER\<close>: the configured container of \<^verbatim>\<open>blob_container\<close>;
  \<^item> \<open>time_now\<close>: \<^verbatim>\<open>int(time.time())\<close>;
  \<^item> \<open>get_token\<close>: \<^verbatim>\<open>azure_credential.get_token(scope)\<close>;
  \<^item> \<open>list_blobs\<close>: \<^verbatim>\<open>list_blobs()\<close> of the named container;
  \<^item> \<open>delete_blob\<close>: \<^verbatim>\<open>blob_client.get_blob_client(container, blob).delete_blob()\<close>;
  \<^item> \<open>search\<close>: \<^verbatim>\<open>search_client.search(text, filter=, top=, include_total_count=True)\<close>;
  \<^item> \<open>delete_documents\<close>: \<^verbatim>\<open>search_client.delete_documents(documents=)\<close>;
  \<^item> \<open>sleep\<close>: the world after \<^verbatim>\<open>time.sleep(n)\<close>;
  \<^item> \<open>str_of\<close>: Python's formatting of a non-string value inside an f-string;
  \<^item> \<open>rtr_run\<close>, \<open>rrr_run\<close>, \<open>rda_run\<close>, \<open>chat_rrr_run\<close>: the \<^verbatim>\<open>run\<close> methods of
    the four strategy objects.
\<close>

type_synonym 'w approach = "json \<Rightarrow> json \<Rightarrow> 'w \<Rightarrow> exn + pyval"

record 'w env =
  AZURE_STORAGE_CONTAINER :: string
  time_now :: "'w \<Rightarrow> int"
  get_token :: "string \<Rightarrow> 'w \<Rightarrow> exn + access_token"
  list_blobs :: "string \<Rightarrow> 'w \<Rightarrow> exn + blob list"
  delete_blob :: "string \<Rightarrow> ustring \<Rightarrow> 'w \<Rightarrow> exn + 'w"
  search :: "string \<Rightarrow> string option \<Rightarrow> nat \<Rightarrow> 'w \<Rightarrow> exn + search_results"
  delete_documents :: "json list \<Rightarrow> 'w \<Rightarrow> exn + 'w"
  sleep :: "nat \<Rightarrow> 'w \<Rightarrow> 'w"
  str_of :: "json \<Rightarrow> string"
  rtr_run :: "'w approach"
  rrr_run :: "'w approach"
  rda_run :: "'w approach"
  chat_rrr_run :: "'w approach"

section \<open>ensure_openai_token\<close>

definition ensure_openai_token :: "'w env \<Rightarrow> 'w \<Rightarrow> globals \<Rightarrow> exn + globals" where
  "ensure_openai_token env w g =
     (if expires_on (openai_token g) < time_now env w - 60 then
        (case get_token env ''https://cognitiveservices.azure.com/.default'' w of
           Inl e \<Rightarrow> Inl e
         | Inr t \<Rightarrow> Inr (g\<lparr>openai_token := t, openai_api_key := token t\<rparr>))
      else Inr g)"

section \<open>The strategy registries and the /ask and /chat handlers\<close>

definition ask_approaches :: "'w env \<Rightarrow> string \<rightharpoonup> 'w approach" where
  "ask_approaches env =
     [''rtr'' \<mapsto> rtr_run env, ''rrr'' \<mapsto> rrr_run env, ''rda'' \<mapsto> rda_run env]"

definition chat_approaches :: "'w env \<Rightarrow> string \<rightharpoonup> 'w approach" where
  "chat_approaches env = [''rrr'' \<mapsto> chat_rrr_run env]"

definition error_body :: "string \<Rightarrow> body" where
  "error_body msg = JsonBody (JObj [(''error'', JStr msg)])"

text \<open>
  The body of a handler's \<^verbatim>\<open>try\<close>: look the strategy up, call \<^verbatim>\<open>run\<close> on the
  request's field (\<^verbatim>\<open>"question"\<close> for /ask, \<^verbatim>\<open>"history"\<close> for /chat) and on
  \<^verbatim>\<open>request.json.get("overrides") or {}\<close>, return \<^verbatim>\<open>jsonify(r)\<close>. A strategy object
  is truthy, so \<^verbatim>\<open>not impl\<close> holds exactly when the lookup gave \<^verbatim>\<open>None\<close>.
\<close>

definition run_approach ::
  "(string \<rightharpoonup> 'w approach) \<Rightarrow> string \<Rightarrow> 'w \<Rightarrow> json \<Rightarrow> json \<Rightarrow> exn + response" where
  "run_approach approaches field w j approach =
     (case dict_get approaches approach of
        Inl e \<Rightarrow> Inl e
      | Inr None \<Rightarrow> Inr \<lparr>body = error_body ''unknown approach'', status = 400\<rparr>
      | Inr (Some impl) \<Rightarrow>
          (case subscript j field of
             Inl e \<Rightarrow> Inl e
           | Inr q \<Rightarrow>
               (case json_get j ''overrides'' of
                  Inl e \<Rightarrow> Inl e
                | Inr ov \<Rightarrow>
                    (case impl q (if truthy ov then ov else JObj []) w of
                       Inl e \<Rightarrow> Inl e
                     | Inr r \<Rightarrow>
                         (case jsonify r of
                            Inl e \<Rightarrow> Inl e
                          | Inr b \<Rightarrow> Inr \<lparr>body = JsonBody b, status = 200\<rparr>)))))"

text \<open>
  A handler returns its outcome and the globals it leaves. \<open>Inl e\<close> is an exception
  that leaves the handler; \<open>Inr r\<close> is the response it returns.
\<close>

definition ask :: "'w env \<Rightarrow> 'w \<Rightarrow> globals \<Rightarrow> request \<Rightarrow> (exn + response) \<times> globals" where
  "ask env w g req =
     (case ensure_openai_token env w g of
        Inl e \<Rightarrow> (Inl e, g)
      | Inr g' \<Rightarrow>
          (case request_json req of
             Inl e \<Rightarrow> (Inl e, g')
           | Inr j \<Rightarrow>
               (case subscript j ''approach'' of
                  Inl e \<Rightarrow> (Inl e, g')
                | Inr approach \<Rightarrow>
                    (case run_approach (ask_approaches env) ''question'' w j approach of
                       Inl e \<Rightarrow> (Inr \<lparr>body = error_body (str_exn e), status = 500\<rparr>, g')
                     | Inr r \<Rightarrow> (Inr r, g')))))"

definition chat :: "'w env \<Rightarrow> 'w \<Rightarrow> globals \<Rightarrow> request \<Rightarrow> (exn + response) \<times> globals" where
  "chat env w g req =
     (case ensure_openai_token env w g of
        Inl e \<Rightarrow> (Inl e, g)
      | Inr g' \<Rightarrow>
          (case request_json req of
             Inl e \<Rightarrow> (Inl e, g')
           | Inr j \<Rightarrow>
               (case subscript j ''approach'' of
                  Inl e \<Rightarrow> (Inl e, g')
                | Inr approach \<Rightarrow>
                    (case run_approach (chat_approaches env) ''history'' w j approach of
                       Inl e \<Rightarrow> (Inr \<lparr>body = error_body (str_exn e), status = 500\<rparr>, g')
                     | Inr r \<Rightarrow> (Inr r, g')))))"

section \<open>/get_documents\<close>

definition base_name :: "ustring \<Rightarrow> ustring" where
  "base_name full_blob_name =
     (let last_hyphen_index = rfind full_blob_name (of_char CHR ''-'')
      in strip (slice_to full_blob_name last_hyphen_index))"

text \<open>
  One pass of the loop over the blobs. \<^verbatim>\<open>blob_data\<close> is a dict, kept in insertion
  order: assigning to a present key replaces its value in place, to an absent key
  appends the item (\<^const>\<open>AList.update\<close>).
\<close>

definition record_blob ::
  "blob \<Rightarrow> (ustring \<times> int \<times> string) list \<Rightarrow> (ustring \<times> int \<times> string) list" where
  "record_blob b blob_data =
     (case map_of blob_data (base_name (name b)) of
        Some (d, e) \<Rightarrow>
          (if d < last_modified b then blob_data
           else AList.update (base_name (name b)) (last_modified b, etag b) blob_data)
      | None \<Rightarrow> AList.update (base_name (name b)) (last_modified b, etag b) blob_data)"


section \<open>/delete_all_documents\<close>

text \<open>\<^verbatim>\<open>[{"id": d["id"]} for d in r]\<close>: the first hit without an id raises.\<close>

fun id_documents :: "json list \<Rightarrow> exn + json list" where
  "id_documents [] = Inr []"
| "id_documents (d # ds) =
     (case subscript d ''id'' of
        Inl e \<Rightarrow> Inl e
      | Inr v \<Rightarrow>
          (case id_documents ds of
             Inl e \<Rightarrow> Inl e
           | Inr vs \<Rightarrow> Inr (JObj [(''id'', v)] # vs)))"

text \<open>
  One pass of the \<^verbatim>\<open>while True\<close> loop: \<open>Inr None\<close> is \<^verbatim>\<open>break\<close>, \<open>Inr (Some w')\<close>
  the world in which the next pass starts.
\<close>

definition delete_all_pass :: "'w env \<Rightarrow> 'w \<Rightarrow> exn + 'w option" where
  "delete_all_pass env w =
     (case search env ''*'' None 1000 w of
        Inl e \<Rightarrow> Inl e
      | Inr r \<Rightarrow>
          (if get_count r = 0 then Inr None
           else
             (case id_documents (results r) of
                Inl e \<Rightarrow> Inl e
              | Inr ds \<Rightarrow>
                  (case delete_documents env ds w of
                     Inl e \<Rightarrow> Inl e
                   | Inr w' \<Rightarrow> Inr (Some (sleep env 2 w'))))))"

text \<open>The loop may run forever: \<open>None\<close> is the handler that never returns.\<close>

partial_function (option) delete_all_loop :: "'w env \<Rightarrow> 'w \<Rightarrow> ((exn + unit) \<times> 'w) option" where
  "delete_all_loop env w =
     (case delete_all_pass env w of
        Inl e \<Rightarrow> Some (Inl e, w)
      | Inr None \<Rightarrow> Some (Inr (), w)
      | Inr (Some w') \<Rightarrow> delete_all_loop env w')"

definition delete_all_documents :: "'w env \<Rightarrow> 'w \<Rightarrow> ((exn + response) \<times> 'w) option" where
  "delete_all_documents env w =
     (case delete_all_loop env w of
        None \<Rightarrow> None
      | Some (Inl e, w') \<Rightarrow> Some (Inl e, w')
      | Some (Inr u, w') \<Rightarrow>
          Some (Inr \<lparr>body = TextBody ''Deleted all documents'', status = 200\<rparr>, w'))"

text \<open>
  The count a search reports in a world, and \<open>n\<close> passes of the loop that all go on
  to a next pass.
\<close>

definition reported_count :: "'w env \<Rightarrow> 'w \<Rightarrow> nat option" where
  "reported_count env w =
     (case search env ''*'' None 1000 w of Inl e \<Rightarrow> None | Inr r \<Rightarrow> Some (get_count r))"

fun passes :: "'w env \<Rightarrow> nat \<Rightarrow> 'w \<Rightarrow> 'w option" where
  "passes env 0 w = Some w"
| "passes env (Suc n) w =
     (case delete_all_pass env w of Inr (Some w') \<Rightarrow> passes env n w' | _ \<Rightarrow> None)"

text \<open>
  "Each delete batch eventually reduces the reported count": from every world the loop
  reaches in which a search reports a positive count, some further passes lead to a
  world in which a search reports a smaller one.
\<close>

definition batches_reduce_count :: "'w env \<Rightarrow> 'w \<Rightarrow> bool" where
  "batches_reduce_count env w =
     (\<forall>k w1 c. passes env k w = Some w1 \<and> reported_count env w1 = Some c \<and> 0 < c \<longrightarrow>
        (\<exists>n w2 c'. passes env n w1 = Some w2 \<and> reported_count env w2 = Some c' \<and> c' < c))"

section \<open>/delete_document\<close>

text \<open>The calls a handler makes that change the storage or the index, in order.\<close>

datatype call = DeleteBlob string ustring | DeleteDocuments "json list"

text \<open>
  The loop over the listing. The \<^verbatim>\<open>startswith\<close> test is outside the
  \<^verbatim>\<open>try\<close>; the deletion, on container \<^verbatim>\<open>"content"\<close>, is inside it.
\<close>

fun delete_blobs ::
  "'w env \<Rightarrow> json \<Rightarrow> blob list \<Rightarrow> call list \<Rightarrow> 'w \<Rightarrow> (exn + unit) \<times> call list \<times> 'w" where
  "delete_blobs env blob_name_to_delete [] tr w = (Inr (), tr, w)"
| "delete_blobs env blob_name_to_delete (b # bs) tr w =
     (case startswith (name b) blob_name_to_delete of
        Inl e \<Rightarrow> (Inl e, tr, w)
      | Inr matches \<Rightarrow>
          (if matches then
             (case delete_blob env ''content'' (name b) w of
                Inl e \<Rightarrow>
                  delete_blobs env blob_name_to_delete bs (tr @ [DeleteBlob ''content'' (name b)]) w
              | Inr w' \<Rightarrow>
                  delete_blobs env blob_name_to_delete bs (tr @ [DeleteBlob ''content'' (name b)]) w')
           else delete_blobs env blob_name_to_delete bs tr w))"

text \<open>\<^verbatim>\<open>f"sourcefile eq '{blob_name_to_delete}.pdf'"\<close>\<close>

definition search_filter :: "'w env \<Rightarrow> json \<Rightarrow> string" where
  "search_filter env blob_name_to_delete =
     ''sourcefile eq '' @
     quoted ((case blob_name_to_delete of JStr s \<Rightarrow> s | v \<Rightarrow> str_of env v) @ ''.pdf'')"

definition delete_sections_pass ::
  "'w env \<Rightarrow> string \<Rightarrow> 'w \<Rightarrow> exn + (json list \<times> 'w) option" where
  "delete_sections_pass env flt w =
     (case search env ''*'' (Some flt) 1000 w of
        Inl e \<Rightarrow> Inl e
      | Inr r \<Rightarrow>
          (if length (results r) = 0 then Inr None
           else
             (case id_documents (results r) of
                Inl e \<Rightarrow> Inl e
              | Inr ds \<Rightarrow>
                  (case delete_documents env ds w of
                     Inl e \<Rightarrow> Inl e
                   | Inr w' \<Rightarrow> Inr (Some (ds, sleep env 2 w'))))))"

partial_function (option) delete_sections_loop ::
  "'w env \<Rightarrow> string \<Rightarrow> call list \<Rightarrow> 'w \<Rightarrow> ((exn + unit) \<times> call list \<times> 'w) option" where
  "delete_sections_loop env flt tr w =
     (case delete_sections_pass env flt w of
        Inl e \<Rightarrow> Some (Inl e, tr, w)
      | Inr None \<Rightarrow> Some (Inr (), tr, w)
      | Inr (Some (ds, w')) \<Rightarrow> delete_sections_loop env flt (tr @ [DeleteDocuments ds]) w')"

text \<open>
  The handler returns its outcome, the calls it made and the world it leaves; \<open>None\<close>
  when its second loop never ends.
\<close>

definition delete_document ::
  "'w env \<Rightarrow> 'w \<Rightarrow> request \<Rightarrow> ((exn + response) \<times> call list \<times> 'w) option" where
  "delete_document env w req =
     (case request_json req of
        Inl e \<Rightarrow> Some (Inl e, [], w)
      | Inr data \<Rightarrow>
          (case json_get data ''name'' of
             Inl e \<Rightarrow> Some (Inl e, [], w)
           | Inr blob_name_to_delete \<Rightarrow>
               (if \<not> truthy blob_name_to_delete then
                  Some (Inr \<lparr>body = error_body ''Missing 'name' parameter'', status = 400\<rparr>, [], w)
                else
                  (case list_blobs env (AZURE_STORAGE_CONTAINER env) w of
                     Inl e \<Rightarrow> Some (Inl e, [], w)
                   | Inr blob_list \<Rightarrow>
                       (case delete_blobs env blob_name_to_delete blob_list [] w of
                          (Inl e, tr, w1) \<Rightarrow> Some (Inl e, tr, w1)
                        | (Inr u, tr, w1) \<Rightarrow>
                            (case delete_sections_loop env
                                    (search_filter env blob_name_to_delete) tr w1 of
                               None \<Rightarrow> None
                             | Some (Inl e, tr2, w2) \<Rightarrow> Some (Inl e, tr2, w2)
                             | Some (Inr u, tr2, w2) \<Rightarrow>
                                 Some (Inr \<lparr>body = TextBody ''200'', status = 200\<rparr>, tr2, w2)))))))"

section \<open>Two instances of the services, to run the handlers on concrete inputs\<close>

text \<open>
  An in-memory world: a clock, the blobs of each container, the documents of the
  index. Deleting a blob that is not there raises; a search sees every deletion at
  once.
\<close>

record world =
  clock :: int
  containers :: "(string \<times> blob list) list"
  documents :: "json list"

definition echo_run :: "string \<Rightarrow> world approach" where
  "echo_run tag q ov w =
     Inr (Serializable (JObj [(''approach'', JStr tag), (''input'', q), (''overrides'', ov)]))"

definition has_sourcefile :: "string \<Rightarrow> json \<Rightarrow> bool" where
  "has_sourcefile flt d =
     (case subscript d ''sourcefile'' of
        Inr (JStr s) \<Rightarrow> flt = ''sourcefile eq '' @ quoted s
      | _ \<Rightarrow> False)"

definition keeps_document :: "json list \<Rightarrow> json \<Rightarrow> bool" where
  "keeps_document ds d =
     (case subscript d ''id'' of Inr v \<Rightarrow> JObj [(''id'', v)] \<notin> set ds | Inl e \<Rightarrow> True)"

definition sim_env :: "world env" where
  "sim_env = \<lparr>
     AZURE_STORAGE_CONTAINER = ''content'',
     time_now = clock,
     get_token = (\<lambda>scope w. Inr \<lparr>token = ''fresh'', expires_on = clock w + 3600\<rparr>),
     list_blobs = (\<lambda>c w.
       case map_of (containers w) c of
         None \<Rightarrow> Inl (ServiceError ''ContainerNotFound'')
       | Some bs \<Rightarrow> Inr bs),
     delete_blob = (\<lambda>c n w.
       case map_of (containers w) c of
         None \<Rightarrow> Inl (ServiceError ''ContainerNotFound'')
       | Some bs \<Rightarrow>
           if n \<in> set (map name bs)
           then Inr (w\<lparr>containers :=
                  AList.update c (filter (\<lambda>b. name b \<noteq> n) bs) (containers w)\<rparr>)
           else Inl (ServiceError ''BlobNotFound'')),
     search = (\<lambda>text flt top w.
       let hits = (case flt of None \<Rightarrow> documents w
                   | Some f \<Rightarrow> filter (has_sourcefile f) (documents w))
       in Inr \<lparr>get_count = length hits, results = take top hits\<rparr>),
     delete_documents = (\<lambda>ds w. Inr (w\<lparr>documents := filter (keeps_document ds) (documents w)\<rparr>)),
     sleep = (\<lambda>n w. w\<lparr>clock := clock w + int n\<rparr>),
     str_of = (\<lambda>v. []),
     rtr_run = echo_run ''rtr'',
     rrr_run = echo_run ''rrr'',
     rda_run = echo_run ''rda'',
     chat_rrr_run = echo_run ''chat''
   \<rparr>"

text \<open>
  An index that only counts its documents: a search reports the count and up to
  \<open>top\<close> hits, each with an id and a content field; a deletion removes one document
  for each element of the batch that is an object with the id alone.
\<close>

definition counter_env :: "nat env" where
  "counter_env = \<lparr>
     AZURE_STORAGE_CONTAINER = ''content'',
     time_now = (\<lambda>n. 0),
     get_token = (\<lambda>scope n. Inr \<lparr>token = ''fresh'', expires_on = 3600\<rparr>),
     list_blobs = (\<lambda>c n. Inr []),
     delete_blob = (\<lambda>c b n. Inr n),
     search = (\<lambda>text flt top n.
       Inr \<lparr>get_count = n,
            results = replicate (min n top)
                        (JObj [(''id'', JStr ''doc''), (''content'', JStr ''text'')])\<rparr>),
     delete_documents = (\<lambda>ds n.
       Inr (n - length (filter (\<lambda>d. d = JObj [(''id'', JStr ''doc'')]) ds))),
     sleep = (\<lambda>secs n. n),
     str_of = (\<lambda>v. []),
     rtr_run = (\<lambda>q ov n. Inr (Serializable q)),
     rrr_run = (\<lambda>q ov n. Inr (Serializable q)),
     rda_run = (\<lambda>q ov n. Inr (Serializable q)),
     chat_rrr_run = (\<lambda>q ov n. Inr (Serializable q))
   \<rparr>"

text \<open>Worlds, globals and configurations for the concrete runs.\<close>

definition idle_world :: world where
  "idle_world = \<lparr>clock = 0, containers = [], documents = []\<rparr>"

definition late_world :: world where
  "late_world = \<lparr>clock = 10000, containers = [], documents = []\<rparr>"

definition valid_globals :: globals where
  "valid_globals =
     \<lparr>openai_token = \<lparr>token = ''t0'', expires_on = 3600\<rparr>, openai_api_key = ''t0''\<rparr>"

definition stocked_world :: world where
  "stocked_world = \<lparr>clock = 0,
     containers = [(''content'', [\<lparr>name = ustr ''report-1.pdf'', last_modified = 5, etag = ''e1''\<rparr>])],
     documents = [JObj [(''id'', JStr ''d1''), (''sourcefile'', JStr ''report.pdf'')]]\<rparr>"

text \<open>The credential service is down: \<^verbatim>\<open>get_token\<close> raises.\<close>

definition offline_env :: "world env" where
  "offline_env =
     sim_env\<lparr>get_token := (\<lambda>scope w. Inl (ServiceError ''CredentialUnavailable''))\<rparr>"

text \<open>
  The deployment sets \<^verbatim>\<open>AZURE_STORAGE_CONTAINER=docs\<close>; the storage account also has
  a container named \<^verbatim>\<open>content\<close>.
\<close>

definition docs_env :: "world env" where
  "docs_env = sim_env\<lparr>AZURE_STORAGE_CONTAINER := ''docs''\<rparr>"

definition two_container_world :: world where
  "two_container_world = \<lparr>clock = 0,
     containers =
       [(''docs'', [\<lparr>name = ustr ''report-1.pdf'', last_modified = 5, etag = ''e1''\<rparr>,
                    \<lparr>name = ustr ''notes-1.pdf'', last_modified = 6, etag = ''e2''\<rparr>]),
        (''content'', [\<lparr>name = ustr ''report-2.pdf'', last_modified = 1, etag = ''c1''\<rparr>])],
     documents = []\<rparr>"




text \<open>
  "\<open>k\<close> is \<open>s\<close> stripped of surrounding whitespace", said without \<^const>\<open>strip\<close>:
  \<open>s\<close> is \<open>k\<close> between two runs of whitespace, and \<open>k\<close> neither starts nor ends
  with whitespace.
\<close>

definition stripped_of :: "ustring \<Rightarrow> ustring \<Rightarrow> bool" where
  "stripped_of s k =
     (\<exists>pre suf. s = pre @ k @ suf \<and> (\<forall>c \<in> set pre. isspace c) \<and> (\<forall>c \<in> set suf. isspace c) \<and>
        (k \<noteq> [] \<longrightarrow> \<not> isspace (hd k) \<and> \<not> isspace (last k)))"



definition spaced_blob :: blob where
  "spaced_blob =
     \<lparr>name = 12288 # ustr ''my report '' @ 8195 # ustr ''x'', last_modified = 5, etag = ''e1''\<rparr>"

section \<open>Facts about the string operations\<close>

lemma rfind_absent: "c \<notin> set s \<Longrightarrow> rfind s c = - 1"
  by (induction s) (auto simp: Let_def)


lemma slice_to_minus_one: "slice_to s (- 1) = butlast s"
proof -
  have "nat (int (length s) + - 1) = length s - 1"
    by arith
  then show ?thesis
    by (simp add: slice_to_def butlast_conv_take)
qed


text \<open>
  \<^const>\<open>strip\<close> returns the stripped string in the sense of \<^const>\<open>stripped_of\<close>, and
  that sense leaves no other result.
\<close>

lemma strip_stripped_of: "stripped_of s (strip s)"
proof -
  define a where "a = takeWhile isspace s"
  define r where "r = dropWhile isspace s"
  define b where "b = takeWhile isspace (rev r)"
  define k where "k = dropWhile isspace (rev r)"
  have s: "s = a @ r"
    by (simp add: a_def r_def)
  have "rev r = b @ k"
    by (simp add: b_def k_def)
  then have r: "r = rev k @ rev b"
    by (metis rev_append rev_rev_ident)
  have strip: "strip s = rev k"
    by (simp add: strip_def k_def r_def)
  have spa: "\<forall>c \<in> set a. isspace c"
    unfolding a_def by (auto dest: set_takeWhileD)
  have spb: "\<forall>c \<in> set (rev b). isspace c"
    unfolding b_def by (auto dest: set_takeWhileD)
  have ends: "\<not> isspace (hd (rev k)) \<and> \<not> isspace (last (rev k))" if "rev k \<noteq> []"
  proof
    have "k \<noteq> []" using that by simp
    then have "\<not> isspace (hd k)"
      unfolding k_def by (rule hd_dropWhile)
    then show "\<not> isspace (last (rev k))"
      using \<open>k \<noteq> []\<close> by (simp add: last_rev)
    have "r \<noteq> []" using r that by simp
    then have "\<not> isspace (hd r)"
      unfolding r_def by (rule hd_dropWhile)
    moreover have "hd r = hd (rev k)"
      using r that by simp
    ultimately show "\<not> isspace (hd (rev k))" by simp
  qed
  have "s = a @ strip s @ rev b"
    using s r strip by simp
  then show ?thesis
    unfolding stripped_of_def using spa spb ends strip by metis
qed

lemma stripped_of_unique:
  assumes "stripped_of s k"
  shows "k = strip s"
proof -
  obtain pre suf where s: "s = pre @ k @ suf"
    and pre: "\<forall>c \<in> set pre. isspace c" and suf: "\<forall>c \<in> set suf. isspace c"
    and ends: "k \<noteq> [] \<longrightarrow> \<not> isspace (hd k) \<and> \<not> isspace (last k)"
    using assms unfolding stripped_of_def by blast
  show ?thesis
  proof (cases "k = []")
    case True
    then have "\<forall>c \<in> set s. isspace c"
      using s pre suf by auto
    then have d0: "dropWhile isspace s = []"
      by (induction s) simp_all
    have "strip s = []"
      unfolding strip_def d0 by simp
    then show ?thesis
      using True by simp
  next
    case False
    then obtain x xs where k: "k = x # xs" by (cases k) auto
    have "\<not> isspace x" using ends k by simp
    then have d1: "dropWhile isspace s = k @ suf"
      using s pre k by (simp add: dropWhile_append2)
    have "rev (k @ suf) = rev suf @ rev k" by simp
    moreover have "\<forall>c \<in> set (rev suf). isspace c" using suf by simp
    moreover have "rev k \<noteq> []" "\<not> isspace (hd (rev k))"
      using False ends by (simp_all add: hd_rev)
    ultimately have "dropWhile isspace (rev (k @ suf)) = rev k"
      by (metis dropWhile_append2 dropWhile_eq_self_iff list.collapse list.set_intros(1) dropWhile.simps(2))
    then show ?thesis
      using d1 by (simp add: strip_def)
  qed
qed

section \<open>Token refresh\<close>

text \<open>
  Claim C1. A stored token whose expiry is within 60 seconds of the current time, or
  already past, is replaced by a fresh one, and the API key with it. The code
  compares \<open>expires_on\<close> with \<open>now - 60\<close>: evaluated on a token that expires at
  1000, at time 1030 (expired for 30 seconds) and at time 970 (30 seconds left) the
  stored token and the API key stay as they are; only at time 1061, more than a
  minute after expiry, is the token replaced.
\<close>

theorem ensure_openai_token_keeps_expired:
  "ensure_openai_token sim_env \<lparr>clock = 1030, containers = [], documents = []\<rparr>
     \<lparr>openai_token = \<lparr>token = ''stale'', expires_on = 1000\<rparr>, openai_api_key = ''stale''\<rparr>
   = Inr \<lparr>openai_token = \<lparr>token = ''stale'', expires_on = 1000\<rparr>, openai_api_key = ''stale''\<rparr>
   \<and> ensure_openai_token sim_env \<lparr>clock = 970, containers = [], documents = []\<rparr>
     \<lparr>openai_token = \<lparr>token = ''stale'', expires_on = 1000\<rparr>, openai_api_key = ''stale''\<rparr>
   = Inr \<lparr>openai_token = \<lparr>token = ''stale'', expires_on = 1000\<rparr>, openai_api_key = ''stale''\<rparr>
   \<and> ensure_openai_token sim_env \<lparr>clock = 1061, containers = [], documents = []\<rparr>
     \<lparr>openai_token = \<lparr>token = ''stale'', expires_on = 1000\<rparr>, openai_api_key = ''stale''\<rparr>
   = Inr \<lparr>openai_token = \<lparr>token = ''fresh'', expires_on = 4661\<rparr>, openai_api_key = ''fresh''\<rparr>"
  by (simp add: ensure_openai_token_def sim_env_def)

section \<open>Grouping keys of /get_documents\<close>

text \<open>
  Claim C9. For a blob whose name contains no hyphen, \<open>rfind\<close> gives -1, the slice
  drops the final character, and the grouping key is what is left, stripped of the
  whitespace around it: not the full name.
\<close>

theorem base_name_without_hyphen:
  "of_char CHR ''-'' \<notin> set (name b) \<Longrightarrow>
     base_name (name b) = strip (butlast (name b)) \<and>
     stripped_of (butlast (name b)) (base_name (name b)) \<and>
     record_blob b [] = [(base_name (name b), last_modified b, etag b)]"
  by (simp add: base_name_def record_blob_def rfind_absent slice_to_minus_one strip_stripped_of)

theorem base_name_without_hyphen_witness:
  "of_char CHR ''-'' \<notin> set (name spaced_blob) \<and>
   butlast (name spaced_blob) = 12288 # ustr ''my report '' @ [8195] \<and>
   base_name (name spaced_blob) = ustr ''my report'' \<and>
   stripped_of (12288 # ustr ''my report '' @ [8195]) (ustr ''my report'') \<and>
   record_blob spaced_blob [] = [(ustr ''my report'', 5, ''e1'')]"
proof -
  have hyp: "of_char CHR ''-'' \<notin> set (name spaced_blob)"
    by (simp add: spaced_blob_def ustr_def)
  have cut: "butlast (name spaced_blob) = 12288 # ustr ''my report '' @ [8195]"
    by (simp add: spaced_blob_def ustr_def)
  have "strip (12288 # ustr ''my report '' @ [8195]) = ustr ''my report''"
    by (simp add: ustr_def strip_def isspace_def)
  then have key: "strip (butlast (name spaced_blob)) = ustr ''my report''"
    using cut by simp
  have inst: "base_name (name spaced_blob) = strip (butlast (name spaced_blob)) \<and>
     stripped_of (butlast (name spaced_blob)) (base_name (name spaced_blob)) \<and>
     record_blob spaced_blob [] =
       [(base_name (name spaced_blob), last_modified spaced_blob, etag spaced_blob)]"
    using hyp by (rule base_name_without_hyphen)
  have "last_modified spaced_blob = 5" "etag spaced_blob = ''e1''"
    by (simp_all add: spaced_blob_def)
  then show ?thesis
    using hyp cut key inst by metis
qed

section \<open>The /ask and /chat handlers\<close>

lemma ensure_valid [simp]:
  "ensure_openai_token sim_env idle_world valid_globals = Inr valid_globals"
  by (simp add: ensure_openai_token_def sim_env_def idle_world_def valid_globals_def)

lemma sim_env_runs [simp]:
  "rtr_run sim_env = echo_run ''rtr''" "rrr_run sim_env = echo_run ''rrr''"
  "rda_run sim_env = echo_run ''rda''" "chat_rrr_run sim_env = echo_run ''chat''"
  by (simp_all add: sim_env_def)

lemma ask_approaches_dom: "dom (ask_approaches env) = {''rtr'', ''rrr'', ''rda''}"
  by (auto simp: ask_approaches_def split: if_splits)

text \<open>
  Claim C2, as stated: every exception raised while handling a POST to /ask or /chat,
  also one raised during token refresh or while reading \<^verbatim>\<open>"approach"\<close> from the body,
  becomes a JSON error response with status 500. It fails: both steps come before the
  \<^verbatim>\<open>try\<close>. A body without \<^verbatim>\<open>"approach"\<close> makes the KeyError leave either handler,
  and so does the error of a token refresh that fails.
\<close>

theorem ask_chat_uncaught:
  "ask sim_env idle_world valid_globals \<lparr>request_json = Inr (JObj [(''question'', JStr ''q'')])\<rparr>
     = (Inl (KeyError ''approach''), valid_globals) \<and>
   chat sim_env idle_world valid_globals \<lparr>request_json = Inr (JObj [(''history'', JArr [])])\<rparr>
     = (Inl (KeyError ''approach''), valid_globals) \<and>
   ask offline_env late_world valid_globals
       \<lparr>request_json = Inr (JObj [(''approach'', JStr ''rtr''), (''question'', JStr ''q'')])\<rparr>
     = (Inl (ServiceError ''CredentialUnavailable''), valid_globals) \<and>
   chat offline_env late_world valid_globals
       \<lparr>request_json = Inr (JObj [(''approach'', JStr ''rrr''), (''history'', JArr [])])\<rparr>
     = (Inl (ServiceError ''CredentialUnavailable''), valid_globals)"
  by (simp add: ask_def chat_def ensure_openai_token_def offline_env_def sim_env_def
      late_world_def idle_world_def valid_globals_def)

text \<open>
  Claim C2, amended: an exception raised inside the \<^verbatim>\<open>try\<close> of /ask or /chat (the
  registry lookup, reading \<^verbatim>\<open>"question"\<close> or \<^verbatim>\<open>"history"\<close> and the overrides, the
  strategy's \<^verbatim>\<open>run\<close>, \<^verbatim>\<open>jsonify\<close>) is caught and answered with
  \<^verbatim>\<open>{"error": str(e)}\<close> and status 500; once the token check and the reading of
  \<^verbatim>\<open>"approach"\<close> have succeeded the handler always returns a response. An exception
  of the token refresh, of parsing the body or of reading \<^verbatim>\<open>"approach"\<close> leaves the
  handler uncaught.
\<close>

theorem handlers_catch_inside_try:
  "(\<forall>e. ensure_openai_token env w g = Inl e \<longrightarrow>
      ask env w g req = (Inl e, g) \<and> chat env w g req = (Inl e, g)) \<and>
   (\<forall>g' e. ensure_openai_token env w g = Inr g' \<and> request_json req = Inl e \<longrightarrow>
      ask env w g req = (Inl e, g') \<and> chat env w g req = (Inl e, g')) \<and>
   (\<forall>g' j e. ensure_openai_token env w g = Inr g' \<and> request_json req = Inr j \<and>
        subscript j ''approach'' = Inl e \<longrightarrow>
      ask env w g req = (Inl e, g') \<and> chat env w g req = (Inl e, g')) \<and>
   (\<forall>g' j a. ensure_openai_token env w g = Inr g' \<and> request_json req = Inr j \<and>
        subscript j ''approach'' = Inr a \<longrightarrow>
      (\<exists>r. ask env w g req = (Inr r, g') \<and>
         (\<forall>e. run_approach (ask_approaches env) ''question'' w j a = Inl e \<longrightarrow>
            r = \<lparr>body = JsonBody (JObj [(''error'', JStr (str_exn e))]), status = 500\<rparr>)) \<and>
      (\<exists>r. chat env w g req = (Inr r, g') \<and>
         (\<forall>e. run_approach (chat_approaches env) ''history'' w j a = Inl e \<longrightarrow>
            r = \<lparr>body = JsonBody (JObj [(''error'', JStr (str_exn e))]), status = 500\<rparr>)))"
  by (auto simp: ask_def chat_def error_body_def split: sum.splits)

theorem handlers_catch_inside_try_witness:
  "ensure_openai_token sim_env idle_world valid_globals = Inr valid_globals \<and>
   request_json \<lparr>request_json = Inr (JObj [(''approach'', JStr ''rtr'')])\<rparr>
     = Inr (JObj [(''approach'', JStr ''rtr'')]) \<and>
   subscript (JObj [(''approach'', JStr ''rtr'')]) ''approach'' = Inr (JStr ''rtr'') \<and>
   run_approach (ask_approaches sim_env) ''question'' idle_world
     (JObj [(''approach'', JStr ''rtr'')]) (JStr ''rtr'') = Inl (KeyError ''question'') \<and>
   ask sim_env idle_world valid_globals \<lparr>request_json = Inr (JObj [(''approach'', JStr ''rtr'')])\<rparr>
     = (Inr \<lparr>body = JsonBody (JObj [(''error'', JStr (str_exn (KeyError ''question'')))]),
             status = 500\<rparr>, valid_globals)"
  using handlers_catch_inside_try [of sim_env idle_world valid_globals
      "\<lparr>request_json = Inr (JObj [(''approach'', JStr ''rtr'')])\<rparr>"]
  by (simp add: ask_def run_approach_def ask_approaches_def error_body_def)

text \<open>
  Claim C4. The registry of /ask has exactly the names rtr, rrr and rda, each bound to
  its own strategy. When the token check has passed and the body names an approach (a
  string): a name outside the registry is answered with status 400 and
  \<^verbatim>\<open>{"error": "unknown approach"}\<close>; a name inside it has the response made from the
  \<^verbatim>\<open>run\<close> of the strategy registered under that name.
\<close>

theorem ask_resolves_approach:
  assumes "ensure_openai_token env w g = Inr g'"
    and "request_json req = Inr (JObj kvs)"
    and "map_of kvs ''approach'' = Some (JStr a)"
  shows "dom (ask_approaches env) = {''rtr'', ''rrr'', ''rda''} \<and>
     ask_approaches env ''rtr'' = Some (rtr_run env) \<and>
     ask_approaches env ''rrr'' = Some (rrr_run env) \<and>
     ask_approaches env ''rda'' = Some (rda_run env) \<and>
     (a \<notin> {''rtr'', ''rrr'', ''rda''} \<longrightarrow>
        ask env w g req =
          (Inr \<lparr>body = JsonBody (JObj [(''error'', JStr ''unknown approach'')]), status = 400\<rparr>, g')) \<and>
     (\<forall>impl q. ask_approaches env a = Some impl \<and> map_of kvs ''question'' = Some q \<longrightarrow>
        ask env w g req =
          (Inr (case impl q (case map_of kvs ''overrides'' of
                               None \<Rightarrow> JObj []
                             | Some ov \<Rightarrow> if truthy ov then ov else JObj []) w of
                  Inl e \<Rightarrow> \<lparr>body = JsonBody (JObj [(''error'', JStr (str_exn e))]), status = 500\<rparr>
                | Inr r \<Rightarrow>
                    (case jsonify r of
                       Inl e \<Rightarrow> \<lparr>body = JsonBody (JObj [(''error'', JStr (str_exn e))]), status = 500\<rparr>
                     | Inr b \<Rightarrow> \<lparr>body = JsonBody b, status = 200\<rparr>)), g'))"
proof -
  have unknown: "ask_approaches env a = None" if "a \<notin> {''rtr'', ''rrr'', ''rda''}"
    using that by (simp add: ask_approaches_def)
  have "ask env w g req =
          (Inr \<lparr>body = JsonBody (JObj [(''error'', JStr ''unknown approach'')]), status = 400\<rparr>, g')"
    if "a \<notin> {''rtr'', ''rrr'', ''rda''}"
    using assms unknown [OF that]
    by (simp add: ask_def run_approach_def error_body_def)
  moreover have "ask env w g req =
          (Inr (case impl q (case map_of kvs ''overrides'' of
                               None \<Rightarrow> JObj []
                             | Some ov \<Rightarrow> if truthy ov then ov else JObj []) w of
                  Inl e \<Rightarrow> \<lparr>body = JsonBody (JObj [(''error'', JStr (str_exn e))]), status = 500\<rparr>
                | Inr r \<Rightarrow>
                    (case jsonify r of
                       Inl e \<Rightarrow> \<lparr>body = JsonBody (JObj [(''error'', JStr (str_exn e))]), status = 500\<rparr>
                     | Inr b \<Rightarrow> \<lparr>body = JsonBody b, status = 200\<rparr>)), g')"
    if "ask_approaches env a = Some impl" and "map_of kvs ''question'' = Some q" for impl q
    using assms that
    by (simp add: ask_def run_approach_def error_body_def split: option.splits sum.splits)
  moreover have "ask_approaches env ''rtr'' = Some (rtr_run env)"
    "ask_approaches env ''rrr'' = Some (rrr_run env)"
    "ask_approaches env ''rda'' = Some (rda_run env)"
    by (simp_all add: ask_approaches_def)
  ultimately show ?thesis
    using ask_approaches_dom [of env] by blast
qed

theorem ask_resolves_approach_witness:
  "ensure_openai_token sim_env idle_world valid_globals = Inr valid_globals \<and>
   map_of [(''approach'', JStr ''xyz''), (''question'', JStr ''q'')] ''approach'' = Some (JStr ''xyz'') \<and>
   ''xyz'' \<notin> {''rtr'', ''rrr'', ''rda''} \<and>
   ask sim_env idle_world valid_globals
       \<lparr>request_json = Inr (JObj [(''approach'', JStr ''xyz''), (''question'', JStr ''q'')])\<rparr>
     = (Inr \<lparr>body = JsonBody (JObj [(''error'', JStr ''unknown approach'')]), status = 400\<rparr>,
        valid_globals) \<and>
   ask_approaches sim_env ''rda'' = Some (echo_run ''rda'') \<and>
   ask sim_env idle_world valid_globals
       \<lparr>request_json = Inr (JObj [(''approach'', JStr ''rda''), (''question'', JStr ''q'')])\<rparr>
     = (Inr \<lparr>body = JsonBody (JObj [(''approach'', JStr ''rda''), (''input'', JStr ''q''),
                                       (''overrides'', JObj [])]), status = 200\<rparr>,
        valid_globals)"
  using ask_resolves_approach [of sim_env idle_world valid_globals valid_globals
      "\<lparr>request_json = Inr (JObj [(''approach'', JStr ''xyz''), (''question'', JStr ''q'')])\<rparr>"
      "[(''approach'', JStr ''xyz''), (''question'', JStr ''q'')]" "''xyz''"]
    ask_resolves_approach [of sim_env idle_world valid_globals valid_globals
      "\<lparr>request_json = Inr (JObj [(''approach'', JStr ''rda''), (''question'', JStr ''q'')])\<rparr>"
      "[(''approach'', JStr ''rda''), (''question'', JStr ''q'')]" "''rda''"]
  by (simp add: ask_approaches_def echo_run_def)



text \<open>
  Claim C6, as stated: the overrides handed to \<^verbatim>\<open>run\<close> are the request's
  \<^verbatim>\<open>"overrides"\<close> value, or an empty dict when that value is absent or null. It
  fails on a value that is present, not null, and falsy: for \<^verbatim>\<open>"overrides": []\<close>
  the strategy receives \<^verbatim>\<open>{}\<close>, and the response is not what \<^verbatim>\<open>run\<close> returns on
  the request's own value.
\<close>

theorem ask_overrides_falsy:
  "ask sim_env idle_world valid_globals
       \<lparr>request_json = Inr (JObj [(''approach'', JStr ''rtr''), (''question'', JStr ''q''),
                                   (''overrides'', JArr [])])\<rparr>
     = (Inr \<lparr>body = JsonBody (JObj [(''approach'', JStr ''rtr''), (''input'', JStr ''q''),
                                       (''overrides'', JObj [])]), status = 200\<rparr>,
        valid_globals) \<and>
   rtr_run sim_env (JStr ''q'') (JArr []) idle_world
     = Inr (Serializable (JObj [(''approach'', JStr ''rtr''), (''input'', JStr ''q''),
                                (''overrides'', JArr [])]))"
  by (simp add: ask_def run_approach_def ask_approaches_def echo_run_def)

text \<open>
  Claim C6, amended: for a POST to /ask whose approach names a registered strategy and
  whose body has a question, when \<^verbatim>\<open>run(question, overrides)\<close> returns a serialisable
  value the response is that value, with status 200, nothing added, removed or
  transformed; \<open>overrides\<close> is the request's \<^verbatim>\<open>"overrides"\<close> value when that is
  truthy, and an empty dict when it is absent, null or any other falsy value (false,
  0, the empty string, list or dict).
\<close>

theorem ask_returns_run_result:
  assumes "ensure_openai_token env w g = Inr g'"
    and "request_json req = Inr (JObj kvs)"
    and "map_of kvs ''approach'' = Some (JStr a)"
    and "ask_approaches env a = Some impl"
    and "map_of kvs ''question'' = Some question"
    and "overrides = (case map_of kvs ''overrides'' of
                        None \<Rightarrow> JObj []
                      | Some ov \<Rightarrow> if truthy ov then ov else JObj [])"
    and "impl question overrides w = Inr (Serializable r)"
  shows "ask env w g req = (Inr \<lparr>body = JsonBody r, status = 200\<rparr>, g')"
  using assms
  by (auto simp: ask_def run_approach_def split: option.splits)

theorem ask_returns_run_result_witness:
  "ensure_openai_token sim_env idle_world valid_globals = Inr valid_globals \<and>
   ask_approaches sim_env ''rrr'' = Some (echo_run ''rrr'') \<and>
   echo_run ''rrr'' (JStr ''q'') (JObj [(''top'', JNum 3)]) idle_world
     = Inr (Serializable (JObj [(''approach'', JStr ''rrr''), (''input'', JStr ''q''),
                                (''overrides'', JObj [(''top'', JNum 3)])])) \<and>
   ask sim_env idle_world valid_globals
       \<lparr>request_json = Inr (JObj [(''approach'', JStr ''rrr''), (''question'', JStr ''q''),
                                   (''overrides'', JObj [(''top'', JNum 3)])])\<rparr>
     = (Inr \<lparr>body = JsonBody (JObj [(''approach'', JStr ''rrr''), (''input'', JStr ''q''),
                                       (''overrides'', JObj [(''top'', JNum 3)])]), status = 200\<rparr>,
        valid_globals)"
  using ask_returns_run_result [of sim_env idle_world valid_globals valid_globals
      "\<lparr>request_json = Inr (JObj [(''approach'', JStr ''rrr''), (''question'', JStr ''q''),
                                   (''overrides'', JObj [(''top'', JNum 3)])])\<rparr>"
      "[(''approach'', JStr ''rrr''), (''question'', JStr ''q''),
        (''overrides'', JObj [(''top'', JNum 3)])]" "''rrr''" "echo_run ''rrr''" "JStr ''q''"
      "JObj [(''top'', JNum 3)]"
      "JObj [(''approach'', JStr ''rrr''), (''input'', JStr ''q''),
             (''overrides'', JObj [(''top'', JNum 3)])]"]
  by (simp add: ask_approaches_def echo_run_def)

section \<open>/delete_document without a name\<close>

text \<open>
  Claim C10. When the body of a POST to /delete_document is an object whose
  \<^verbatim>\<open>'name'\<close> is absent, null or the empty string, the handler answers with status 400
  and \<^verbatim>\<open>{"error": "Missing 'name' parameter"}\<close>, has made no deleting call on the
  storage or on the index, and leaves the world as it was.
\<close>

theorem delete_document_missing_name:
  assumes "request_json req = Inr (JObj kvs)"
    and "map_of kvs ''name'' = None \<or> map_of kvs ''name'' = Some JNull \<or>
         map_of kvs ''name'' = Some (JStr [])"
  shows "delete_document env w req =
     Some (Inr \<lparr>body = JsonBody (JObj [(''error'', JStr ''Missing 'name' parameter'')]),
                status = 400\<rparr>, [], w)"
  using assms
  by (auto simp: delete_document_def error_body_def)

theorem delete_document_missing_name_witness:
  "map_of [(''name'', JStr [])] ''name'' = Some (JStr []) \<and>
   delete_document sim_env stocked_world \<lparr>request_json = Inr (JObj [(''name'', JStr [])])\<rparr> =
     Some (Inr \<lparr>body = JsonBody (JObj [(''error'', JStr ''Missing 'name' parameter'')]),
                status = 400\<rparr>, [], stocked_world) \<and>
   map_of [(''other'', JNum 1)] ''name'' = None \<and>
   delete_document sim_env stocked_world \<lparr>request_json = Inr (JObj [(''other'', JNum 1)])\<rparr> =
     Some (Inr \<lparr>body = JsonBody (JObj [(''error'', JStr ''Missing 'name' parameter'')]),
                status = 400\<rparr>, [], stocked_world)"
  using delete_document_missing_name [of "\<lparr>request_json = Inr (JObj [(''name'', JStr [])])\<rparr>"
      "[(''name'', JStr [])]" sim_env stocked_world]
    delete_document_missing_name [of "\<lparr>request_json = Inr (JObj [(''other'', JNum 1)])\<rparr>"
      "[(''other'', JNum 1)]" sim_env stocked_world]
  by simp

section \<open>/delete_all_documents\<close>

lemma passes_add:
  "passes env (m + n) w = (case passes env m w of None \<Rightarrow> None | Some w1 \<Rightarrow> passes env n w1)"
  by (induction m arbitrary: w) (auto split: sum.splits option.splits)

lemma delete_all_loop_passes:
  "passes env n w = Some w' \<Longrightarrow> delete_all_loop env w = delete_all_loop env w'"
proof (induction n arbitrary: w)
  case 0
  then show ?case by simp
next
  case (Suc n)
  then obtain w1 where step: "delete_all_pass env w = Inr (Some w1)" and rest: "passes env n w1 = Some w'"
    by (auto split: sum.splits option.splits)
  have "delete_all_loop env w = delete_all_loop env w1"
    using step by (subst delete_all_loop.simps) simp
  then show ?case
    using Suc.IH [OF rest] by simp
qed

lemma delete_all_loop_done:
  assumes "reported_count env w = Some 0"
  shows "delete_all_loop env w = Some (Inr (), w)"
proof -
  have "delete_all_pass env w = Inr None"
    using assms by (auto simp: reported_count_def delete_all_pass_def split: sum.splits)
  then show ?thesis
    by (subst delete_all_loop.simps) simp
qed

lemma delete_all_loop_result:
  "delete_all_loop env w = Some y \<Longrightarrow> fst y = Inr () \<longrightarrow> reported_count env (snd y) = Some 0"
proof (induction rule: delete_all_loop.raw_induct [rotated 1, consumes 1])
  case (1 lp env w y)
  show ?case
  proof (cases "delete_all_pass env w")
    case (Inl e)
    then show ?thesis using 1(2) by auto
  next
    case (Inr nxt)
    show ?thesis
    proof (cases nxt)
      case None
      then have "snd y = w" and "delete_all_pass env w = Inr None"
        using 1(2) Inr by auto
      then show ?thesis
        by (auto simp: reported_count_def delete_all_pass_def split: sum.splits if_splits)
    next
      case (Some w1)
      then have "lp env w1 = Some y"
        using 1(2) Inr by simp
      then show ?thesis by (rule 1(1))
    qed
  qed
qed

lemma delete_all_loop_count:
  "delete_all_loop env w = Some (Inr (), w') \<Longrightarrow> reported_count env w' = Some 0"
  using delete_all_loop_result [of env w "(Inr (), w')"] by simp


lemma delete_all_loop_terminates:
  assumes red: "batches_reduce_count env w"
    and reach: "passes env k w = Some w1"
    and cnt: "reported_count env w1 = Some c"
  shows "\<exists>w'. delete_all_loop env w1 = Some (Inr (), w') \<and> reported_count env w' = Some 0"
  using reach cnt
proof (induction c arbitrary: k w1 rule: less_induct)
  case (less c)
  show ?case
  proof (cases "c = 0")
    case True
    then show ?thesis
      using less.prems delete_all_loop_done [of env w1] by auto
  next
    case False
    then obtain n w2 c' where n: "passes env n w1 = Some w2"
      and c': "reported_count env w2 = Some c'" "c' < c"
      using red less.prems unfolding batches_reduce_count_def by blast
    have "passes env (k + n) w = Some w2"
      using less.prems(1) n by (simp add: passes_add)
    then obtain w' where "delete_all_loop env w2 = Some (Inr (), w')" "reported_count env w' = Some 0"
      using less.IH [OF c'(2) _ c'(1)] by blast
    then show ?thesis
      using delete_all_loop_passes [OF n] by auto
  qed
qed

text \<open>
  The batch handed to \<^verbatim>\<open>delete_documents\<close>: when every hit has an id, one object
  per hit, in order, holding that id and nothing else of the hit.
\<close>

lemma id_documents_ids:
  "map (\<lambda>d. subscript d ''id'') ds = map Inr ids \<Longrightarrow>
     id_documents ds = Inr (map (\<lambda>v. JObj [(''id'', v)]) ids)"
proof (induction ds arbitrary: ids)
  case Nil
  then show ?case by simp
next
  case (Cons d ds)
  then obtain v vs where ids: "ids = v # vs" and d: "subscript d ''id'' = Inr v"
    and rest: "map (\<lambda>d. subscript d ''id'') ds = map Inr vs"
    by (cases ids) auto
  show ?case
    using d Cons.IH [OF rest] by (simp add: ids)
qed

text \<open>
  Claim C7. The handler returns "Deleted all documents" only from a world in which the
  search reports a total count of 0; a pass whose search (for up to 1000 documents)
  reports a positive count and whose hits all have an id hands \<^verbatim>\<open>delete_documents\<close>
  one \<^verbatim>\<open>{"id": ...}\<close> object per returned hit, sleeps and starts the loop again; and when each delete batch eventually reduces the reported count (and the
  first search succeeds) the loop ends, the handler returns, and the count last
  observed is zero.
\<close>

theorem delete_all_documents_until_empty:
  "(\<forall>r w'. delete_all_documents env w = Some (Inr r, w') \<longrightarrow>
      r = \<lparr>body = TextBody ''Deleted all documents'', status = 200\<rparr> \<and>
      reported_count env w' = Some 0) \<and>
   (\<forall>r ids w1. search env ''*'' None 1000 w = Inr r \<and> get_count r \<noteq> 0 \<and>
        map (\<lambda>d. subscript d ''id'') (results r) = map Inr ids \<and>
        delete_documents env (map (\<lambda>v. JObj [(''id'', v)]) ids) w = Inr w1 \<longrightarrow>
      delete_all_documents env w = delete_all_documents env (sleep env 2 w1)) \<and>
   (batches_reduce_count env w \<and> reported_count env w \<noteq> None \<longrightarrow>
      (\<exists>w'. delete_all_documents env w =
          Some (Inr \<lparr>body = TextBody ''Deleted all documents'', status = 200\<rparr>, w') \<and>
        reported_count env w' = Some 0))"
proof (intro conjI allI impI)
  fix r w'
  assume ret: "delete_all_documents env w = Some (Inr r, w')"
  then have loop: "delete_all_loop env w = Some (Inr (), w')"
    by (auto simp: delete_all_documents_def split: option.splits sum.splits prod.splits)
  then show "r = \<lparr>body = TextBody ''Deleted all documents'', status = 200\<rparr>"
    using ret by (simp add: delete_all_documents_def)
  show "reported_count env w' = Some 0"
    using loop by (rule delete_all_loop_count)
next
  fix r ids w1
  assume "search env ''*'' None 1000 w = Inr r \<and> get_count r \<noteq> 0 \<and>
        map (\<lambda>d. subscript d ''id'') (results r) = map Inr ids \<and>
        delete_documents env (map (\<lambda>v. JObj [(''id'', v)]) ids) w = Inr w1"
  then have "delete_all_pass env w = Inr (Some (sleep env 2 w1))"
    by (simp add: delete_all_pass_def id_documents_ids)
  then have "delete_all_loop env w = delete_all_loop env (sleep env 2 w1)"
    by (subst delete_all_loop.simps) simp
  then show "delete_all_documents env w = delete_all_documents env (sleep env 2 w1)"
    by (simp add: delete_all_documents_def)
next
  assume pre: "batches_reduce_count env w \<and> reported_count env w \<noteq> None"
  then obtain c where c: "reported_count env w = Some c" by auto
  have "passes env 0 w = Some w" by simp
  then obtain w' where "delete_all_loop env w = Some (Inr (), w')" "reported_count env w' = Some 0"
    using delete_all_loop_terminates [of env w 0 w c] pre c by blast
  then show "\<exists>w'. delete_all_documents env w =
          Some (Inr \<lparr>body = TextBody ''Deleted all documents'', status = 200\<rparr>, w') \<and>
        reported_count env w' = Some 0"
    by (auto simp: delete_all_documents_def)
qed

lemma id_documents_replicate:
  "id_documents (replicate n (JObj [(''id'', v), (''content'', c)])) =
     Inr (replicate n (JObj [(''id'', v)]))"
  using id_documents_ids [of "replicate n (JObj [(''id'', v), (''content'', c)])" "replicate n v"]
  by (simp add: map_replicate_const)

lemma counter_reported [simp]: "reported_count counter_env n = Some n"
  by (simp add: reported_count_def counter_env_def)

lemma counter_pass:
  "0 < n \<Longrightarrow> delete_all_pass counter_env n = Inr (Some (n - min n 1000))"
  by (simp add: delete_all_pass_def counter_env_def id_documents_replicate)

lemma counter_reduces: "batches_reduce_count counter_env n"
  unfolding batches_reduce_count_def
proof (intro allI impI)
  fix k w1 c
  assume a: "passes counter_env k n = Some w1 \<and> reported_count counter_env w1 = Some c \<and> 0 < c"
  then have "w1 = c" "0 < w1" by simp_all
  then have "passes counter_env 1 w1 = Some (w1 - min w1 1000)"
    by (simp add: counter_pass)
  moreover have "w1 - min w1 1000 < c"
    using \<open>w1 = c\<close> \<open>0 < w1\<close> by (simp add: min_def)
  ultimately have "passes counter_env 1 w1 = Some (w1 - min w1 1000) \<and>
      reported_count counter_env (w1 - min w1 1000) = Some (w1 - min w1 1000) \<and>
      w1 - min w1 1000 < c"
    by simp
  then show "\<exists>m w2 c'. passes counter_env m w1 = Some w2 \<and>
      reported_count counter_env w2 = Some c' \<and> c' < c"
    by blast
qed

lemma counter_search:
  "search counter_env ''*'' None 1000 2500 =
     Inr \<lparr>get_count = 2500,
          results = replicate 1000 (JObj [(''id'', JStr ''doc''), (''content'', JStr ''text'')])\<rparr>"
  by (simp add: counter_env_def)

lemma counter_delete:
  "delete_documents counter_env (map (\<lambda>v. JObj [(''id'', v)]) (replicate 1000 (JStr ''doc''))) 2500 =
     Inr 1500"
  by (simp add: counter_env_def)

theorem delete_all_documents_until_empty_witness:
  "batches_reduce_count counter_env 2500 \<and> reported_count counter_env 2500 = Some 2500 \<and>
   search counter_env ''*'' None 1000 2500 =
     Inr \<lparr>get_count = 2500,
          results = replicate 1000 (JObj [(''id'', JStr ''doc''), (''content'', JStr ''text'')])\<rparr> \<and>
   delete_documents counter_env (replicate 1000 (JObj [(''id'', JStr ''doc'')])) 2500 = Inr 1500 \<and>
   delete_all_documents counter_env 2500 = delete_all_documents counter_env 1500 \<and>
   delete_all_documents counter_env 2500 =
     Some (Inr \<lparr>body = TextBody ''Deleted all documents'', status = 200\<rparr>, 0)"
proof -
  have ids: "map (\<lambda>d. subscript d ''id'')
        (results \<lparr>get_count = 2500,
          results = replicate 1000 (JObj [(''id'', JStr ''doc''), (''content'', JStr ''text'')])\<rparr>) =
      map Inr (replicate 1000 (JStr ''doc''))"
    by (simp add: map_replicate_const)
  have "sleep counter_env 2 1500 = 1500"
    by (simp add: counter_env_def)
  then have step: "delete_all_documents counter_env 2500 = delete_all_documents counter_env 1500"
    using delete_all_documents_until_empty [of counter_env 2500] counter_search counter_delete ids
    by (metis (no_types, lifting) search_results.select_convs(1) zero_neq_numeral)
  have del: "delete_documents counter_env (replicate 1000 (JObj [(''id'', JStr ''doc'')])) 2500 = Inr 1500"
    using counter_delete by (simp add: map_replicate_const)
  have pre: "batches_reduce_count counter_env 2500 \<and> reported_count counter_env 2500 \<noteq> None"
    using counter_reduces [of 2500] by simp
  then obtain w' where "delete_all_documents counter_env 2500 =
      Some (Inr \<lparr>body = TextBody ''Deleted all documents'', status = 200\<rparr>, w')"
    and "reported_count counter_env w' = Some 0"
    using delete_all_documents_until_empty [of counter_env 2500] by blast
  then show ?thesis
    using pre step del counter_search by simp
qed

section \<open>/delete_document with a name\<close>

text \<open>
  With a string as name, the loop over the listing never raises: it calls
  \<^verbatim>\<open>delete_blob\<close> once for each listed blob whose name starts with the given name, in
  order, whether or not an earlier call failed, and always on the container
  \<^verbatim>\<open>content\<close>.
\<close>

lemma delete_blobs_trace:
  "\<exists>w'. delete_blobs env (JStr p) bs tr w =
     (Inr (), tr @ map (\<lambda>b. DeleteBlob ''content'' (name b))
                      (filter (\<lambda>b. take (length (ustr p)) (name b) = ustr p) bs), w')"
proof (induction bs arbitrary: tr w)
  case Nil
  show ?case by simp
next
  case (Cons b bs)
  show ?case
  proof (cases "take (length (ustr p)) (name b) = ustr p")
    case False
    then show ?thesis
      using Cons.IH [of tr w] by simp
  next
    case True
    show ?thesis
    proof (cases "delete_blob env ''content'' (name b) w")
      case (Inl e)
      then show ?thesis
        using True Cons.IH [of "tr @ [DeleteBlob ''content'' (name b)]" w] by simp
    next
      case (Inr w1)
      then show ?thesis
        using True Cons.IH [of "tr @ [DeleteBlob ''content'' (name b)]" w1] by simp
    qed
  qed
qed

text \<open>
  Claim C5. Deletion is attempted for exactly the blobs of the container whose names
  start with the given name. The listing is that of the configured container, the
  deletion is addressed to the container \<^verbatim>\<open>content\<close>: with
  \<^verbatim>\<open>AZURE_STORAGE_CONTAINER=docs\<close> and the name \<^verbatim>\<open>report\<close>, the one call is
  for \<^verbatim>\<open>content/report-1.pdf\<close>, which does not exist; \<^verbatim>\<open>report-1.pdf\<close> in
  \<^verbatim>\<open>docs\<close> and \<^verbatim>\<open>report-2.pdf\<close> in \<^verbatim>\<open>content\<close> are never
  attempted, and the handler still answers 200.
\<close>

theorem delete_document_other_container:
  "delete_document docs_env two_container_world \<lparr>request_json = Inr (JObj [(''name'', JStr ''report'')])\<rparr>
   = Some (Inr \<lparr>body = TextBody ''200'', status = 200\<rparr>,
           [DeleteBlob ''content'' (ustr ''report-1.pdf'')],
           \<lparr>clock = 0,
            containers =
              [(''docs'', [\<lparr>name = ustr ''report-1.pdf'', last_modified = 5, etag = ''e1''\<rparr>,
                           \<lparr>name = ustr ''notes-1.pdf'', last_modified = 6, etag = ''e2''\<rparr>]),
               (''content'', [\<lparr>name = ustr ''report-2.pdf'', last_modified = 1, etag = ''c1''\<rparr>])],
            documents = []\<rparr>)"
  by (simp add: delete_document_def docs_env_def sim_env_def two_container_world_def
      delete_sections_loop.simps delete_sections_pass_def search_filter_def ustr_def)

section \<open>/get_documents: one entry per base name\<close>
















end
